theory Spec2Isabelle
  imports Main
begin

section \<open>GitHub OAuth authorization for Strider: a model of authorization.js\<close>

text \<open>
  The module exports \<^verbatim>\<open>makeStrategyCallback(context)\<close>, whose result is the verification
  callback of the OAuth strategy. The functions below follow the closures of that module
  one by one and keep their names. What the source leaves to its collaborators is an
  explicit argument:
  \<^item> the module \<^verbatim>\<open>config\<close> is the record \<open>config_env\<close>;
  \<^item> the answers of the GitHub client are the fields of the record \<open>GitHub\<close>;
  \<^item> the clock, the random source, the built-in \<^verbatim>\<open>String.prototype.toLowerCase\<close>, the
    failures of the account store and the order in which two concurrent callbacks arrive
    are the fields of the record \<open>env\<close>;
  \<^item> the persisted collection of users is the record \<open>store\<close>, the module variable
    \<^verbatim>\<open>teamIds\<close> is a field of the record \<open>auth_state\<close>; both are passed in and
    returned.
  The logger only prints and is left out.
\<close>

subsection \<open>Values\<close>

text \<open>
  The error a callback of this module receives is either built by the module with
  \<^verbatim>\<open>new Error(message)\<close>, or it is the error a collaborator (the GitHub client, the account
  store) called back with, passed on as it is. A collaborator's error is a value of its
  own type, here its message: whatever a collaborator answers, the module passes it on as
  \<open>TransportError\<close>, and \<open>Error\<close> is only what the module built itself.
\<close>

type_synonym transport_error = string

datatype error = Error string | TransportError transport_error

text \<open>
  The answer of a collaborator as the callback sees it: \<^verbatim>\<open>if (err) return callback(err)\<close>
  passes the collaborator's error on.
\<close>

fun answer :: "transport_error + 'a \<Rightarrow> error + 'a" where
  "answer (Inl err) = Inl (TransportError err)"
| "answer (Inr a) = Inr a"

text \<open>
  The authorization levels: \<^verbatim>\<open>UNAUTHORIZED = {}\<close> is a marker object, \<^verbatim>\<open>ACCESS = 0\<close> and
  \<^verbatim>\<open>ADMIN = 1\<close> are the numbers stored in \<^verbatim>\<open>account_level\<close>.
\<close>

datatype authorization = UNAUTHORIZED | Level int

abbreviation ACCESS :: authorization where "ACCESS \<equiv> Level 0"
abbreviation ADMIN :: authorization where "ADMIN \<equiv> Level 1"

text \<open>One entry of the email list of the GitHub API.\<close>

record email_entry =
  email :: string
  verified :: bool
  primary :: bool

text \<open>The passport profile; \<open>gravatar_id\<close> is \<^verbatim>\<open>profile._json.gravatar_id\<close>.\<close>

record profile =
  profile_id :: string
  profileUrl :: string
  username :: string
  displayName :: string
  gravatar_id :: string

text \<open>
  The GitHub client \<^verbatim>\<open>gh\<close>. Each method of the client calls back with an error or with
  its answer; \<open>findTeamWithName\<close> answers \<^verbatim>\<open>null\<close> (here \<open>None\<close>) when the organization
  has no such team, \<open>belongsToOrganization\<close> answers \<^verbatim>\<open>(isMember, isAdmin)\<close>.
\<close>

record GitHub =
  emails :: "transport_error + email_entry list"
  belongsToOrganization :: "string \<Rightarrow> transport_error + (bool \<times> bool)"
  findTeamWithName :: "string \<Rightarrow> string \<Rightarrow> transport_error + nat option"
  belongsToTeam :: "nat \<Rightarrow> transport_error + bool"
  profile :: profile
  accessToken :: string

text \<open>
  The module \<^verbatim>\<open>config\<close>. A team name that is not set is \<open>None\<close>; JavaScript also takes
  the empty string for false.
\<close>

record config_env =
  orgName :: string
  accessTeamName :: "string option"
  adminTeamName :: "string option"

definition truthy :: "string option \<Rightarrow> bool" where
  "truthy v = (case v of None \<Rightarrow> False | Some s \<Rightarrow> s \<noteq> [])"

text \<open>
  The entries of \<^verbatim>\<open>user.accounts\<close>: the object literal pushed by \<^verbatim>\<open>syncUserModel\<close>, with
  its nested \<^verbatim>\<open>config\<close> object. The field \<open>acc_id\<close> is \<^verbatim>\<open>id\<close>, \<open>acc_config\<close> is
  \<^verbatim>\<open>config\<close>.
\<close>

record account_config =
  cfg_accessToken :: string
  cfg_login :: string
  cfg_email :: string
  cfg_gravatarId :: string
  cfg_name :: string

record account =
  provider :: string
  acc_id :: string
  display_url :: string
  title :: string
  acc_config :: account_config
  cache :: "string list"

text \<open>
  The fields of Strider's User document that this module reads or writes. \<open>uid\<close> is the
  document's \<^verbatim>\<open>_id\<close>, \<open>user_email\<close> is \<^verbatim>\<open>email\<close>; a field that was never set is \<open>None\<close>.
\<close>

record user =
  uid :: nat
  user_email :: string
  created :: "nat option"
  password :: "string option"
  projects :: "string list"
  account_level :: "int option"
  accounts :: "account list"

text \<open>
  The account store: the persisted documents, and the number of \<^verbatim>\<open>save\<close> calls issued so
  far (kept to state that a path issues no save).
\<close>

record store =
  users :: "user list"
  saves :: nat

text \<open>
  The state of the authorization evaluator: \<^verbatim>\<open>teamIds\<close>, shared by all requests of the
  process, and the list of the team requests it has sent to the GitHub API (kept to state
  that a path sends none).
\<close>

datatype teamType = access | admin

datatype api_call =
    is_FindTeamWithName: FindTeamWithName string string
  | is_BelongsToTeam: BelongsToTeam nat

record auth_state =
  teamIds :: "teamType \<Rightarrow> nat option"
  requests :: "api_call list"

text \<open>
  \<^verbatim>\<open>async.parallel\<close> starts two tasks and calls back once: with the results when both
  succeed, with the first error that arrives otherwise. Which of two errors arrives first
  is decided outside the program: \<open>second_first env j\<close> says that at the join \<open>j\<close> the
  second task calls back before the first.

  What the program takes from outside: \<open>now\<close> is \<^verbatim>\<open>new Date()\<close>, \<open>randomBytes\<close> is
  \<^verbatim>\<open>crypto.randomBytes(256).toString('utf-8')\<close>, \<open>toLowerCase\<close> is the built-in
  \<^verbatim>\<open>String.prototype.toLowerCase\<close>, \<open>find_err\<close> is the error of the store's query if it
  fails, and \<open>save_err k\<close> the error of the save issued after \<open>k\<close> earlier ones if it fails.
\<close>

datatype join = JoinStrategy | JoinTeamIds | JoinMembership

record env =
  now :: nat
  randomBytes :: string
  toLowerCase :: "string \<Rightarrow> string"
  find_err :: "transport_error option"
  save_err :: "nat \<Rightarrow> transport_error option"
  second_first :: "join \<Rightarrow> bool"

fun parallel :: "bool \<Rightarrow> error + 'a \<Rightarrow> error + 'b \<Rightarrow> error + ('a \<times> 'b)" where
  "parallel sf (Inr a) (Inr b) = Inr (a, b)"
| "parallel sf (Inl e) (Inr b) = Inl e"
| "parallel sf (Inr a) (Inl e) = Inl e"
| "parallel sf (Inl e1) (Inl e2) = Inl (if sf then e2 else e1)"

subsection \<open>Strings\<close>

text \<open>
  The built-in \<^verbatim>\<open>String.prototype.toLowerCase\<close> follows the Unicode case mapping and is
  taken from \<open>env\<close>. On a string of ASCII characters it replaces the letters A to Z by a
  to z and keeps every other character; \<open>toLowerCase_ascii\<close> is that function, and it is
  the built-in of the concrete environment below, whose addresses are all ASCII.
\<close>

definition lower_char :: "char \<Rightarrow> char" where
  "lower_char c =
     (case map_of (zip ''ABCDEFGHIJKLMNOPQRSTUVWXYZ'' ''abcdefghijklmnopqrstuvwxyz'') c of
        Some l \<Rightarrow> l
      | None \<Rightarrow> c)"

definition toLowerCase_ascii :: "string \<Rightarrow> string" where
  "toLowerCase_ascii s = map lower_char s"

text \<open>An array of strings turned into a string, as \<^verbatim>\<open>'...' + emails\<close> does: joined by commas.\<close>

fun array_toString :: "string list \<Rightarrow> string" where
  "array_toString [] = []"
| "array_toString [s] = s"
| "array_toString (s # t # ss) = s @ '','' @ array_toString (t # ss)"

subsection \<open>The account store\<close>

text \<open>
  The store is the collaborator \<^verbatim>\<open>context.models.User\<close>, Strider's model of a user. Its
  operations are modelled from their interface: a query by email, a constructor, a save
  that may fail, and the lookup of a linked account.

  \<^verbatim>\<open>User.find({ email: { $in: addresses }})\<close>: the stored documents whose email is one of
  the addresses, or the error of the store.
\<close>

definition User_find :: "env \<Rightarrow> string list \<Rightarrow> store \<Rightarrow> error + user list" where
  "User_find e addresses db =
     (case find_err e of
        Some err \<Rightarrow> Inl (TransportError err)
      | None \<Rightarrow> Inr (filter (\<lambda>u. user_email u \<in> set addresses) (users db)))"

text \<open>
  \<^verbatim>\<open>new User()\<close>: a document with an identifier that no stored document has, its arrays
  empty (the default of the schema) and nothing else set.
\<close>

definition next_uid :: "user list \<Rightarrow> nat" where
  "next_uid us = Suc (foldr max (map uid us) 0)"

definition new_User :: "store \<Rightarrow> user" where
  "new_User db =
     \<lparr>uid = next_uid (users db), user_email = [], created = None, password = None,
      projects = [], account_level = None, accounts = []\<rparr>"

text \<open>
  \<^verbatim>\<open>user.save(cb)\<close>: the document replaces the stored one with its identifier, or is added
  when there is none. When the store fails nothing is written. The result is the error
  passed to the callback.
\<close>

definition put_user :: "user \<Rightarrow> user list \<Rightarrow> user list" where
  "put_user u us =
     (if uid u \<in> set (map uid us) then map (\<lambda>v. if uid v = uid u then u else v) us
      else us @ [u])"

definition save :: "env \<Rightarrow> user \<Rightarrow> store \<Rightarrow> error option \<times> store" where
  "save e u db =
     (case save_err e (saves db) of
        Some err \<Rightarrow> (Some (TransportError err), db\<lparr>saves := Suc (saves db)\<rparr>)
      | None \<Rightarrow> (None, db\<lparr>users := put_user u (users db), saves := Suc (saves db)\<rparr>))"

text \<open>
  \<^verbatim>\<open>user.account(provider, id)\<close> of Strider's User model: the first entry of
  \<^verbatim>\<open>user.accounts\<close> with this provider and identifier, if any.
\<close>

definition user_account :: "user \<Rightarrow> string \<Rightarrow> string \<Rightarrow> account option" where
  "user_account u p i = find (\<lambda>a. provider a = p \<and> acc_id a = i) (accounts u)"

subsection \<open>emailsFromGitHub\<close>

text \<open>
  The callback of \<^verbatim>\<open>verified.map\<close>: it returns the lower-cased address and assigns the
  variable \<^verbatim>\<open>primary\<close> when the entry is flagged and \<^verbatim>\<open>!primary\<close> holds, which is the case
  for \<^verbatim>\<open>null\<close> and for the empty string.
\<close>

fun map_addresses ::
  "env \<Rightarrow> email_entry list \<Rightarrow> string option \<Rightarrow> string list \<times> string option" where
  "map_addresses e [] prim = ([], prim)"
| "map_addresses e (result # rest) prim =
     (let downcased = toLowerCase e (email result);
          prim' = (if primary result \<and> \<not> truthy prim then Some downcased else prim);
          (addresses, prim'') = map_addresses e rest prim'
      in (downcased # addresses, prim''))"

definition emailsFromGitHub :: "env \<Rightarrow> GitHub \<Rightarrow> error + (string list \<times> string)" where
  "emailsFromGitHub e gh =
     (case answer (emails gh) of
        Inl err \<Rightarrow> Inl err
      | Inr ems \<Rightarrow>
          (let verifieds = filter verified ems in
           if length verifieds = 0
           then Inl (Error ''You have no verified email addresses on GitHub.'')
           else
             (let (addresses, prim) = map_addresses e verifieds None in
              case prim of
                None \<Rightarrow> Inr (addresses, addresses ! 0)
              | Some p \<Rightarrow> if p = [] then Inr (addresses, addresses ! 0) else Inr (addresses, p))))"

subsection \<open>findUser\<close>

definition findUser :: "env \<Rightarrow> GitHub \<Rightarrow> profile \<Rightarrow> store \<Rightarrow> (error + user) \<times> store" where
  "findUser e gh prof db =
     (case emailsFromGitHub e gh of
        Inl err \<Rightarrow> (Inl err, db)
      | Inr (addresses, prim) \<Rightarrow>
          (case User_find e addresses db of
             Inl err \<Rightarrow> (Inl err, db)
           | Inr results \<Rightarrow>
               if length results > 1
               then (Inl (Error (''More than one user found matching addresses: ''
                                  @ array_toString (map user_email results))), db)
               else if length results = 0
               then
                 (let usr = (new_User db)\<lparr>user_email := prim, created := Some (now e),
                                password := Some (randomBytes e), projects := []\<rparr>
                  in case save e usr db of
                       (Some err, db') \<Rightarrow> (Inl err, db')
                     | (None, db') \<Rightarrow> (Inr usr, db'))
               else (Inr (results ! 0), db)))"

subsection \<open>The authorization evaluator\<close>

definition checkOrgMembership ::
  "config_env \<Rightarrow> GitHub \<Rightarrow> auth_state \<Rightarrow> (error + authorization) \<times> auth_state" where
  "checkOrgMembership config gh st =
     (case answer (belongsToOrganization gh (orgName config)) of
        Inl err \<Rightarrow> (Inl err, st)
      | Inr (isMember, isAdmin) \<Rightarrow>
          if isMember \<and> isAdmin then (Inr ADMIN, st)
          else if isMember \<and> \<not> isAdmin then (Inr ACCESS, st)
          else (Inr UNAUTHORIZED, st))"

text \<open>\<^verbatim>\<open>config[teamType + 'TeamName']\<close>.\<close>

fun configKey :: "config_env \<Rightarrow> teamType \<Rightarrow> string option" where
  "configKey config access = accessTeamName config"
| "configKey config admin = adminTeamName config"

definition ensureTeamId ::
  "config_env \<Rightarrow> GitHub \<Rightarrow> teamType \<Rightarrow> auth_state \<Rightarrow> error option \<times> auth_state" where
  "ensureTeamId config gh tt st =
     (if teamIds st tt \<noteq> None then (None, st)
      else
        (case configKey config tt of
           None \<Rightarrow> (None, st)
         | Some teamName \<Rightarrow>
             if teamName = [] then (None, st)
             else
               (let st1 = st\<lparr>requests :=
                            requests st @ [FindTeamWithName (orgName config) teamName]\<rparr>
                in case answer (findTeamWithName gh (orgName config) teamName) of
                     Inl err \<Rightarrow> (Some err, st1)
                   | Inr None \<Rightarrow> (None, st1)
                   | Inr (Some i) \<Rightarrow> (None, st1\<lparr>teamIds := (teamIds st1)(tt := Some i)\<rparr>))))"

text \<open>
  Both lookups are started, whatever the other one answers; they write different keys of
  \<^verbatim>\<open>teamIds\<close>. The state returned is the one reached when both have called back.
\<close>

definition first_error :: "bool \<Rightarrow> error option \<Rightarrow> error option \<Rightarrow> error option" where
  "first_error sf e1 e2 =
     (case (e1, e2) of
        (None, None) \<Rightarrow> None
      | (Some a, None) \<Rightarrow> Some a
      | (None, Some b) \<Rightarrow> Some b
      | (Some a, Some b) \<Rightarrow> Some (if sf then b else a))"

definition ensureTeamIds ::
  "config_env \<Rightarrow> env \<Rightarrow> GitHub \<Rightarrow> auth_state \<Rightarrow> error option \<times> auth_state" where
  "ensureTeamIds config e gh st =
     (let (e1, st1) = ensureTeamId config gh access st;
          (e2, st2) = ensureTeamId config gh admin st1
      in (first_error (second_first e JoinTeamIds) e1 e2, st2))"

definition checkTeamMembership ::
  "config_env \<Rightarrow> env \<Rightarrow> GitHub \<Rightarrow> auth_state \<Rightarrow> (error + authorization) \<times> auth_state" where
  "checkTeamMembership config e gh st =
     (case ensureTeamIds config e gh st of
        (Some err, st1) \<Rightarrow> (Inl err, st1)
      | (None, st1) \<Rightarrow>
          (case (teamIds st1 access, teamIds st1 admin) of
             (Some accessId, Some adminId) \<Rightarrow>
               (let st2 = st1\<lparr>requests :=
                            requests st1 @ [BelongsToTeam accessId, BelongsToTeam adminId]\<rparr>
                in case parallel (second_first e JoinMembership)
                          (answer (belongsToTeam gh accessId))
                          (answer (belongsToTeam gh adminId)) of
                     Inl err \<Rightarrow> (Inl err, st2)
                   | Inr (results_access, results_admin) \<Rightarrow>
                       if results_admin then (Inr ADMIN, st2)
                       else if results_access then (Inr ACCESS, st2)
                       else (Inr UNAUTHORIZED, st2))
           | _ \<Rightarrow> (Inr UNAUTHORIZED, st1)))"

definition checkAuthorization ::
  "config_env \<Rightarrow> env \<Rightarrow> GitHub \<Rightarrow> auth_state \<Rightarrow> (error + authorization) \<times> auth_state" where
  "checkAuthorization config e gh st =
     (if truthy (accessTeamName config) \<and> truthy (adminTeamName config)
      then checkTeamMembership config e gh st
      else checkOrgMembership config gh st)"

subsection \<open>syncUserModel\<close>

text \<open>The object literal pushed onto \<^verbatim>\<open>user.accounts\<close>.\<close>

definition github_account :: "GitHub \<Rightarrow> user \<Rightarrow> account" where
  "github_account gh usr =
     \<lparr>provider = ''github'',
      acc_id = profile_id (profile gh),
      display_url = profileUrl (profile gh),
      title = username (profile gh),
      acc_config =
        \<lparr>cfg_accessToken = accessToken gh,
         cfg_login = username (profile gh),
         cfg_email = user_email usr,
         cfg_gravatarId = gravatar_id (profile gh),
         cfg_name = displayName (profile gh)\<rparr>,
      cache = []\<rparr>"

text \<open>
  The result is what the callback receives: \<^verbatim>\<open>callback()\<close> is \<open>(None, None)\<close>,
  \<^verbatim>\<open>callback(err, user)\<close> passes the document also when the save failed.
\<close>

definition syncUserModel ::
  "env \<Rightarrow> GitHub \<Rightarrow> user option \<Rightarrow> authorization \<Rightarrow> store
     \<Rightarrow> (error option \<times> user option) \<times> store" where
  "syncUserModel e gh usr auth db =
     (case usr of
        None \<Rightarrow> ((None, None), db)
      | Some u \<Rightarrow>
          (case auth of
             UNAUTHORIZED \<Rightarrow> ((None, None), db)
           | Level n \<Rightarrow>
               (let u1 = u\<lparr>account_level := Some n\<rparr>;
                    u2 = (case user_account u1 ''github'' (profile_id (profile gh)) of
                            None \<Rightarrow> u1\<lparr>accounts := accounts u1 @ [github_account gh u1]\<rparr>
                          | Some a \<Rightarrow> u1)
                in case save e u2 db of (err, db') \<Rightarrow> ((err, Some u2), db'))))"

subsection \<open>The strategy callback\<close>

text \<open>
  Modelled from the spec: the constructor \<^verbatim>\<open>new GitHub(profile, accessToken)\<close> of the module
  \<^verbatim>\<open>./github\<close>, which is missing. The client is constructed per request from a profile and
  an access token and keeps both (the code reads \<^verbatim>\<open>gh.profile\<close> and \<^verbatim>\<open>gh.accessToken\<close>); its
  answers are those of the API for this token, given as \<open>api\<close>.
\<close>

definition new_GitHub :: "GitHub \<Rightarrow> profile \<Rightarrow> string \<Rightarrow> GitHub" where
  "new_GitHub api prof token = api\<lparr>profile := prof, accessToken := token\<rparr>"

text \<open>
  The function returned by \<^verbatim>\<open>makeStrategyCallback\<close>. \<^verbatim>\<open>findUser\<close> works on the store,
  \<^verbatim>\<open>checkAuthorization\<close> on \<^verbatim>\<open>teamIds\<close>, so the two concurrent tasks do not interfere and
  both run to their end even when the other fails.
\<close>

definition strategyCallback ::
  "config_env \<Rightarrow> env \<Rightarrow> GitHub \<Rightarrow> string \<Rightarrow> string \<Rightarrow> profile \<Rightarrow> store \<times> auth_state
     \<Rightarrow> (error option \<times> user option) \<times> store \<times> auth_state" where
  "strategyCallback config e api token refreshToken prof s =
     (let gh = new_GitHub api prof token;
          (results_user, db1) = findUser e gh prof (fst s);
          (results_authorization, st1) = checkAuthorization config e gh (snd s)
      in case parallel (second_first e JoinStrategy) results_user results_authorization of
           Inl err \<Rightarrow> ((Some err, None), db1, st1)
         | Inr (usr, auth) \<Rightarrow>
             if auth = UNAUTHORIZED
             then ((Some (Error ''User not authorized''), None), db1, st1)
             else (case syncUserModel e gh (Some usr) auth db1 of
                     (res, db2) \<Rightarrow> (res, db2, st1)))"

subsection \<open>Concrete inputs\<close>

text \<open>A profile, a client, a configuration and a store on which the results are run.\<close>

definition octocat :: profile where
  "octocat = \<lparr>profile_id = ''583231'', profileUrl = ''https://github.com/octocat'',
     username = ''octocat'', displayName = ''The Octocat'', gravatar_id = ''g1''\<rparr>"

definition octocat_emails :: "email_entry list" where
  "octocat_emails =
     [\<lparr>email = ''Octo@Cat.io'', verified = True, primary = False\<rparr>,
      \<lparr>email = ''hidden@cat.io'', verified = False, primary = True\<rparr>,
      \<lparr>email = ''Mona@GitHub.com'', verified = True, primary = True\<rparr>]"

text \<open>
  The API as an outsider sees it: not a member of the organization, no team visible.
\<close>

definition outsider_api :: GitHub where
  "outsider_api =
     \<lparr>emails = Inr octocat_emails,
      belongsToOrganization = (\<lambda>org. Inr (False, False)),
      findTeamWithName = (\<lambda>org name. Inr None),
      belongsToTeam = (\<lambda>i. Inr False),
      profile = octocat, accessToken = []\<rparr>"

text \<open>
  The API as a member of the organization \<open>acme\<close> sees it: team \<open>devs\<close> is 7, team
  \<open>owners\<close> is 9, and the caller belongs to the teams listed in \<open>mine\<close>.
\<close>

definition member_api :: "nat list \<Rightarrow> GitHub" where
  "member_api mine =
     \<lparr>emails = Inr octocat_emails,
      belongsToOrganization = (\<lambda>org. Inr (org = ''acme'', False)),
      findTeamWithName = (\<lambda>org name.
         if org = ''acme'' \<and> name = ''devs'' then Inr (Some 7)
         else if org = ''acme'' \<and> name = ''owners'' then Inr (Some 9)
         else Inr None),
      belongsToTeam = (\<lambda>i. Inr (i \<in> set mine)),
      profile = octocat, accessToken = []\<rparr>"

definition org_config :: config_env where
  "org_config = \<lparr>orgName = ''acme'', accessTeamName = None, adminTeamName = None\<rparr>"

definition team_config :: config_env where
  "team_config =
     \<lparr>orgName = ''acme'', accessTeamName = Some ''devs'', adminTeamName = Some ''owners''\<rparr>"

definition quiet_env :: env where
  "quiet_env =
     \<lparr>now = 1700000000, randomBytes = ''s3cr3t'', toLowerCase = toLowerCase_ascii,
      find_err = None, save_err = (\<lambda>k. None), second_first = (\<lambda>j. False)\<rparr>"

definition no_teamIds :: auth_state where
  "no_teamIds = \<lparr>teamIds = (\<lambda>tt. None), requests = []\<rparr>"

definition mona :: user where
  "mona = \<lparr>uid = 3, user_email = ''mona@github.com'', created = Some 1600000000,
     password = Some ''pw'', projects = [], account_level = Some 0, accounts = []\<rparr>"

definition octo :: user where
  "octo = \<lparr>uid = 5, user_email = ''octo@cat.io'', created = Some 1650000000,
     password = Some ''pw2'', projects = [], account_level = Some 1, accounts = []\<rparr>"

definition empty_store :: store where
  "empty_store = \<lparr>users = [], saves = 0\<rparr>"

section \<open>Results\<close>

subsection \<open>Email normalization\<close>

lemma map_addresses_fst:
  "fst (map_addresses e vs p) = map (\<lambda>r. toLowerCase e (email r)) vs"
  by (induction vs arbitrary: p) (simp_all add: Let_def split_beta)

lemma map_addresses_truthy: "truthy p \<Longrightarrow> snd (map_addresses e vs p) = p"
  by (induction vs arbitrary: p) (simp_all add: Let_def split_beta)

text \<open>
  The variable \<^verbatim>\<open>primary\<close> after the loop: the address of the first flagged entry, and
  its value before the loop when no entry is flagged.
\<close>

lemma map_addresses_snd:
  assumes "\<not> truthy p"
    and "\<forall>r \<in> set vs. primary r \<longrightarrow> toLowerCase e (email r) \<noteq> []"
  shows "snd (map_addresses e vs p) =
     (case find primary vs of Some r \<Rightarrow> Some (toLowerCase e (email r)) | None \<Rightarrow> p)"
  using assms
proof (induction vs arbitrary: p)
  case Nil
  then show ?case by simp
next
  case (Cons r rs)
  show ?case
  proof (cases "primary r")
    case True
    with Cons.prems have "truthy (Some (toLowerCase e (email r)))"
      by (simp add: truthy_def)
    with True Cons.prems show ?thesis
      using map_addresses_truthy [of "Some (toLowerCase e (email r))" e rs]
      by (simp add: Let_def split_beta)
  next
    case False
    with Cons.IH [of p] Cons.prems show ?thesis
      by (simp add: Let_def split_beta)
  qed
qed

text \<open>The addresses of the concrete profile.\<close>

lemma octocat_addresses:
  "emails gh = Inr octocat_emails \<Longrightarrow>
     emailsFromGitHub quiet_env gh =
       Inr ([''octo@cat.io'', ''mona@github.com''], ''mona@github.com'')"
  by (simp add: emailsFromGitHub_def octocat_emails_def quiet_env_def toLowerCase_ascii_def
      lower_char_def truthy_def Let_def)

text \<open>
  Claim C5. Let the provider return an email list in which no verified entry flagged
  primary has an address that lower-cases to the empty string (the provider's addresses
  are not empty, and lower-casing keeps them so). \<open>emailsFromGitHub\<close> keeps the verified
  entries only; it fails with the error "You have no verified email addresses on GitHub."
  when there is none; the addresses it returns are the verified addresses in list order,
  each lower-cased by the built-in \<^verbatim>\<open>toLowerCase\<close>; the primary address is the lower-cased
  address of the first verified entry flagged primary, and that of the first verified
  entry when none is flagged. The function takes no state and returns none: it reads
  nothing but the answer of the client and writes nothing.
\<close>

theorem emailsFromGitHub_result:
  assumes "emails gh = Inr ems"
    and "\<forall>r \<in> set ems. verified r \<and> primary r \<longrightarrow> toLowerCase e (email r) \<noteq> []"
  shows "emailsFromGitHub e gh =
     (if filter verified ems = []
      then Inl (Error ''You have no verified email addresses on GitHub.'')
      else Inr (map (\<lambda>r. toLowerCase e (email r)) (filter verified ems),
                case find primary (filter verified ems) of
                  Some r \<Rightarrow> toLowerCase e (email r)
                | None \<Rightarrow> toLowerCase e (email (filter verified ems ! 0))))"
proof (cases "filter verified ems = []")
  case True
  with assms(1) show ?thesis by (simp add: emailsFromGitHub_def)
next
  case False
  let ?vs = "filter verified ems"
  obtain as p where m: "map_addresses e ?vs None = (as, p)"
    by (cases "map_addresses e ?vs None")
  have as: "as = map (\<lambda>r. toLowerCase e (email r)) ?vs"
    using map_addresses_fst [of e ?vs None] m by simp
  have as0: "as ! 0 = toLowerCase e (email (?vs ! 0))"
    using False as by (cases ?vs) simp_all
  have flagged: "\<forall>r \<in> set ?vs. primary r \<longrightarrow> toLowerCase e (email r) \<noteq> []"
    using assms(2) by simp
  have p: "p = (case find primary ?vs of
                  Some r \<Rightarrow> Some (toLowerCase e (email r)) | None \<Rightarrow> None)"
    using map_addresses_snd [OF _ flagged, of None] m by (simp add: truthy_def)
  show ?thesis
  proof (cases "find primary ?vs")
    case None
    with p False m as as0 assms(1) show ?thesis
      by (simp add: emailsFromGitHub_def Let_def)
  next
    case (Some r)
    then obtain i where i: "i < length ?vs" "primary (?vs ! i)" "r = ?vs ! i"
      by (auto simp: find_Some_iff)
    from i(1) have "?vs ! i \<in> set ?vs" by (rule nth_mem)
    with flagged i have "toLowerCase e (email r) \<noteq> []" by blast
    with Some p False m as assms(1) show ?thesis
      by (simp add: emailsFromGitHub_def Let_def)
  qed
qed

text \<open>
  The theorem on the list of the concrete profile, whose flagged entry is not verified
  and whose second verified entry is flagged, and on a list without a verified entry.
\<close>

theorem emailsFromGitHub_result_witness:
  "emailsFromGitHub quiet_env outsider_api =
     Inr ([''octo@cat.io'', ''mona@github.com''], ''mona@github.com'')
   \<and> emailsFromGitHub quiet_env
       (outsider_api\<lparr>emails :=
          Inr [\<lparr>email = ''Mona@GitHub.com'', verified = False, primary = True\<rparr>]\<rparr>) =
     Inl (Error ''You have no verified email addresses on GitHub.'')"
proof -
  have h1: "emails outsider_api = Inr octocat_emails"
    by (simp add: outsider_api_def)
  have h2: "\<forall>r \<in> set octocat_emails.
      verified r \<and> primary r \<longrightarrow> toLowerCase quiet_env (email r) \<noteq> []"
    by (simp add: octocat_emails_def quiet_env_def toLowerCase_ascii_def)
  have k1: "emails (outsider_api\<lparr>emails :=
          Inr [\<lparr>email = ''Mona@GitHub.com'', verified = False, primary = True\<rparr>]\<rparr>) =
        Inr [\<lparr>email = ''Mona@GitHub.com'', verified = False, primary = True\<rparr>]"
    by simp
  have k2: "\<forall>r \<in> set [\<lparr>email = ''Mona@GitHub.com'', verified = False, primary = True\<rparr>].
      verified r \<and> primary r \<longrightarrow> toLowerCase quiet_env (email r) \<noteq> []"
    by simp
  have r1: "emailsFromGitHub quiet_env outsider_api =
     Inr ([''octo@cat.io'', ''mona@github.com''], ''mona@github.com'')"
    using emailsFromGitHub_result [OF h1 h2]
    by (simp add: octocat_emails_def quiet_env_def toLowerCase_ascii_def lower_char_def)
  have r2: "emailsFromGitHub quiet_env
       (outsider_api\<lparr>emails :=
          Inr [\<lparr>email = ''Mona@GitHub.com'', verified = False, primary = True\<rparr>]\<rparr>) =
     Inl (Error ''You have no verified email addresses on GitHub.'')"
    using emailsFromGitHub_result [OF k1 k2] by simp
  from r1 r2 show ?thesis by (rule conjI)
qed

subsection \<open>Organization membership\<close>

text \<open>
  Claim C7. In organization-membership mode the level is \<open>ADMIN\<close> when the membership query
  answers (isMember, isAdmin) = (true, true), \<open>ACCESS\<close> (standard) when it answers
  (true, false), and \<open>UNAUTHORIZED\<close> whenever isMember is false, whatever isAdmin is. These
  are all the answers there are, and the evaluator's state is left as it was.
\<close>

theorem checkOrgMembership_levels:
  "checkOrgMembership config
     (gh\<lparr>belongsToOrganization := (belongsToOrganization gh)(orgName config := Inr (True, True))\<rparr>)
     st = (Inr ADMIN, st)
   \<and> checkOrgMembership config
     (gh\<lparr>belongsToOrganization := (belongsToOrganization gh)(orgName config := Inr (True, False))\<rparr>)
     st = (Inr ACCESS, st)
   \<and> checkOrgMembership config
     (gh\<lparr>belongsToOrganization := (belongsToOrganization gh)(orgName config := Inr (False, isAdmin))\<rparr>)
     st = (Inr UNAUTHORIZED, st)"
  by (simp add: checkOrgMembership_def)

subsection \<open>The refresh token\<close>

text \<open>
  Claim C10. Two invocations of the strategy callback that differ only in the refresh
  token (same configuration, same collaborator answers, same access token and profile,
  same store and same \<^verbatim>\<open>teamIds\<close>) give the same error, the same account, the same store
  and the same evaluator state: the callback never reads the refresh token.
\<close>

theorem refreshToken_unused:
  "strategyCallback config e api token refreshToken1 prof s =
   strategyCallback config e api token refreshToken2 prof s"
  by (simp add: strategyCallback_def)

subsection \<open>The team identifiers\<close>

lemma ensureTeamId_populated:
  "teamIds st tt = Some i \<Longrightarrow> ensureTeamId config gh tt st = (None, st)"
  by (simp add: ensureTeamId_def)

lemma ensureTeamId_unpopulated:
  assumes "teamIds st tt = None" and "configKey config tt = Some teamName" and "teamName \<noteq> []"
  shows "ensureTeamId config gh tt st =
    (case findTeamWithName gh (orgName config) teamName of
       Inl err \<Rightarrow>
         (Some (TransportError err),
          st\<lparr>requests := requests st @ [FindTeamWithName (orgName config) teamName]\<rparr>)
     | Inr None \<Rightarrow>
         (None, st\<lparr>requests := requests st @ [FindTeamWithName (orgName config) teamName]\<rparr>)
     | Inr (Some i) \<Rightarrow>
         (None, st\<lparr>requests := requests st @ [FindTeamWithName (orgName config) teamName],
                   teamIds := (teamIds st)(tt := Some i)\<rparr>))"
  using assms by (simp add: ensureTeamId_def Let_def split: sum.splits option.splits)

text \<open>The lookups send no membership request.\<close>

lemma ensureTeamId_membership_requests:
  "filter is_BelongsToTeam (requests (snd (ensureTeamId config gh tt st))) =
   filter is_BelongsToTeam (requests st)"
  by (simp add: ensureTeamId_def Let_def split: option.splits sum.splits)

lemma ensureTeamIds_membership_requests:
  "filter is_BelongsToTeam (requests (snd (ensureTeamIds config e gh st))) =
   filter is_BelongsToTeam (requests st)"
proof -
  obtain e1 st1 where a: "ensureTeamId config gh access st = (e1, st1)"
    by (cases "ensureTeamId config gh access st")
  obtain e2 st2 where b: "ensureTeamId config gh admin st1 = (e2, st2)"
    by (cases "ensureTeamId config gh admin st1")
  have "filter is_BelongsToTeam (requests st2) = filter is_BelongsToTeam (requests st1)"
    using ensureTeamId_membership_requests [of config gh admin st1] b by simp
  moreover have "filter is_BelongsToTeam (requests st1) = filter is_BelongsToTeam (requests st)"
    using ensureTeamId_membership_requests [of config gh access st] a by simp
  ultimately show ?thesis
    using a b by (simp add: ensureTeamIds_def)
qed

text \<open>The lookups on the concrete inputs, for an outsider and for a member.\<close>

lemma outsider_ensureTeamId:
  "ensureTeamId team_config outsider_api access no_teamIds =
     (None, no_teamIds\<lparr>requests := [FindTeamWithName ''acme'' ''devs'']\<rparr>)"
  "ensureTeamId team_config outsider_api admin
       (no_teamIds\<lparr>requests := [FindTeamWithName ''acme'' ''devs'']\<rparr>) =
     (None, no_teamIds\<lparr>requests := [FindTeamWithName ''acme'' ''devs'',
                                     FindTeamWithName ''acme'' ''owners'']\<rparr>)"
  by (simp_all add: ensureTeamId_def team_config_def outsider_api_def no_teamIds_def Let_def)

lemma outsider_ensureTeamIds:
  "ensureTeamIds team_config quiet_env outsider_api no_teamIds =
     (None, no_teamIds\<lparr>requests := [FindTeamWithName ''acme'' ''devs'',
                                     FindTeamWithName ''acme'' ''owners'']\<rparr>)"
  by (simp add: ensureTeamIds_def outsider_ensureTeamId first_error_def)

lemma member_ensureTeamId:
  "ensureTeamId team_config (member_api mine) access no_teamIds =
     (None, \<lparr>teamIds = (\<lambda>tt. None)(access := Some 7),
             requests = [FindTeamWithName ''acme'' ''devs'']\<rparr>)"
  "ensureTeamId team_config (member_api mine) admin
       \<lparr>teamIds = (\<lambda>tt. None)(access := Some 7),
        requests = [FindTeamWithName ''acme'' ''devs'']\<rparr> =
     (None, \<lparr>teamIds = (\<lambda>tt. None)(access := Some 7, admin := Some 9),
             requests = [FindTeamWithName ''acme'' ''devs'',
                         FindTeamWithName ''acme'' ''owners'']\<rparr>)"
  by (simp_all add: ensureTeamId_def team_config_def member_api_def no_teamIds_def Let_def)

lemma member_ensureTeamIds:
  "ensureTeamIds team_config quiet_env (member_api mine) no_teamIds =
     (None, \<lparr>teamIds = (\<lambda>tt. None)(access := Some 7, admin := Some 9),
             requests = [FindTeamWithName ''acme'' ''devs'',
                         FindTeamWithName ''acme'' ''owners'']\<rparr>)"
  by (simp add: ensureTeamIds_def member_ensureTeamId first_error_def)

text \<open>
  Claim C2, as the code has it. For a role whose team name is configured (and not empty)
  and whose entry of \<^verbatim>\<open>teamIds\<close> is still \<^verbatim>\<open>null\<close>, \<open>ensureTeamId\<close> sends one lookup to the API.
  When the lookup succeeds the identifier is stored, and a later call for the role
  returns without a request. When the API reports that there is no such team, nothing is
  stored: the entry stays \<^verbatim>\<open>null\<close> and a later call for the role sends the lookup again.
  When the lookup fails the error is returned, nothing is stored, and a later call sends
  the lookup again.
\<close>

theorem ensureTeamId_lookup:
  assumes "teamIds st tt = None"
    and "configKey config tt = Some teamName"
    and "teamName \<noteq> []"
    and "ensureTeamId config gh tt st = (r, st1)"
  shows "requests st1 = requests st @ [FindTeamWithName (orgName config) teamName]
    \<and> (case findTeamWithName gh (orgName config) teamName of
         Inr (Some i) \<Rightarrow>
           r = None \<and> teamIds st1 = (teamIds st)(tt := Some i)
           \<and> ensureTeamId config gh' tt st1 = (None, st1)
       | Inr None \<Rightarrow>
           r = None \<and> teamIds st1 = teamIds st
           \<and> requests (snd (ensureTeamId config gh' tt st1)) =
               requests st1 @ [FindTeamWithName (orgName config) teamName]
       | Inl err \<Rightarrow>
           r = Some (TransportError err) \<and> teamIds st1 = teamIds st
           \<and> requests (snd (ensureTeamId config gh' tt st1)) =
               requests st1 @ [FindTeamWithName (orgName config) teamName])"
proof (cases "findTeamWithName gh (orgName config) teamName")
  case (Inl err)
  with assms have st1: "r = Some (TransportError err)"
      "st1 = st\<lparr>requests := requests st @ [FindTeamWithName (orgName config) teamName]\<rparr>"
    using ensureTeamId_unpopulated [OF assms(1-3), of gh] by simp_all
  then have "teamIds st1 tt = None" using assms(1) by simp
  from ensureTeamId_unpopulated [OF this assms(2,3), of gh'] Inl st1 show ?thesis
    by (simp split: sum.splits option.splits)
next
  case (Inr found)
  show ?thesis
  proof (cases found)
    case None
    with Inr assms have st1: "r = None"
        "st1 = st\<lparr>requests := requests st @ [FindTeamWithName (orgName config) teamName]\<rparr>"
      using ensureTeamId_unpopulated [OF assms(1-3), of gh] by simp_all
    then have "teamIds st1 tt = None" using assms(1) by simp
    from ensureTeamId_unpopulated [OF this assms(2,3), of gh'] Inr None st1 show ?thesis
      by (simp split: sum.splits option.splits)
  next
    case (Some i)
    with Inr assms have st1: "r = None"
        "st1 = st\<lparr>requests := requests st @ [FindTeamWithName (orgName config) teamName],
                   teamIds := (teamIds st)(tt := Some i)\<rparr>"
      using ensureTeamId_unpopulated [OF assms(1-3), of gh] by simp_all
    then have "teamIds st1 tt = Some i" by simp
    from ensureTeamId_populated [OF this, of config gh'] Inr Some st1 show ?thesis
      by simp
  qed
qed

text \<open>
  The theorem at a member's first request for the role \<open>access\<close>: the identifier 7 is
  stored, and the next request, by an outsider who cannot see the team, sends no lookup.
\<close>

theorem ensureTeamId_lookup_witness:
  "teamIds no_teamIds access = None
   \<and> configKey team_config access = Some ''devs''
   \<and> ensureTeamId team_config (member_api []) access no_teamIds =
       (None, \<lparr>teamIds = (\<lambda>tt. None)(access := Some 7),
               requests = [FindTeamWithName ''acme'' ''devs'']\<rparr>)
   \<and> ensureTeamId team_config outsider_api access
        \<lparr>teamIds = (\<lambda>tt. None)(access := Some 7),
         requests = [FindTeamWithName ''acme'' ''devs'']\<rparr> =
       (None, \<lparr>teamIds = (\<lambda>tt. None)(access := Some 7),
               requests = [FindTeamWithName ''acme'' ''devs'']\<rparr>)"
proof -
  have h1: "teamIds no_teamIds access = None" by (simp add: no_teamIds_def)
  have h2: "configKey team_config access = Some ''devs''" by (simp add: team_config_def)
  have h3: "''devs'' \<noteq> []" by simp
  note h4 = member_ensureTeamId(1) [of "[]"]
  have f: "findTeamWithName (member_api []) (orgName team_config) ''devs'' = Inr (Some 7)"
    by (simp add: member_api_def team_config_def)
  have "ensureTeamId team_config outsider_api access
        \<lparr>teamIds = (\<lambda>tt. None)(access := Some 7),
         requests = [FindTeamWithName ''acme'' ''devs'']\<rparr> =
       (None, \<lparr>teamIds = (\<lambda>tt. None)(access := Some 7),
               requests = [FindTeamWithName ''acme'' ''devs'']\<rparr>)"
    using ensureTeamId_lookup [OF h1 h2 h3 h4, of outsider_api, THEN conjunct2] f
    by (simp add: no_teamIds_def)
  with h1 h2 h4 show ?thesis
    by simp
qed

text \<open>
  Claim C2 as written fails where the API reports that there is no such team. Nothing is
  stored as absent: after an outsider's request, for whom the team \<open>devs\<close> is not found,
  the request of a member sends the lookup for the same role again and stores 7.
\<close>

theorem ensureTeamId_not_found_counterexample:
  "findTeamWithName outsider_api (orgName team_config) ''devs'' = Inr None
   \<and> requests (snd (ensureTeamId team_config (member_api []) access
                      (snd (ensureTeamId team_config outsider_api access no_teamIds)))) =
       [FindTeamWithName ''acme'' ''devs'', FindTeamWithName ''acme'' ''devs'']
   \<and> teamIds (snd (ensureTeamId team_config (member_api []) access
                      (snd (ensureTeamId team_config outsider_api access no_teamIds)))) access
       = Some 7"
proof -
  have "ensureTeamId team_config (member_api []) access
          (no_teamIds\<lparr>requests := [FindTeamWithName ''acme'' ''devs'']\<rparr>) =
        (None, \<lparr>teamIds = (\<lambda>tt. None)(access := Some 7),
                requests = [FindTeamWithName ''acme'' ''devs'',
                            FindTeamWithName ''acme'' ''devs'']\<rparr>)"
    by (simp add: ensureTeamId_def team_config_def member_api_def no_teamIds_def Let_def)
  then show ?thesis
    by (simp add: outsider_ensureTeamId(1)) (simp add: outsider_api_def)
qed

subsection \<open>Team membership\<close>

lemma checkTeamMembership_unresolved:
  assumes "ensureTeamIds config e gh st = (None, st1)"
    and "teamIds st1 access = None \<or> teamIds st1 admin = None"
  shows "checkTeamMembership config e gh st = (Inr UNAUTHORIZED, st1)"
proof (cases "teamIds st1 access")
  case None
  with assms(1) show ?thesis by (simp add: checkTeamMembership_def)
next
  case (Some a)
  with assms have "teamIds st1 admin = None" by simp
  with assms(1) Some show ?thesis by (simp add: checkTeamMembership_def)
qed

lemma checkTeamMembership_resolved:
  assumes "ensureTeamIds config e gh st = (None, st1)"
    and "teamIds st1 access = Some accessId" "teamIds st1 admin = Some adminId"
    and "belongsToTeam gh accessId = Inr isAccess" "belongsToTeam gh adminId = Inr isAdmin"
  shows "checkTeamMembership config e gh st =
     (Inr (if isAdmin then ADMIN else if isAccess then ACCESS else UNAUTHORIZED),
      st1\<lparr>requests := requests st1 @ [BelongsToTeam accessId, BelongsToTeam adminId]\<rparr>)"
  using assms by (simp add: checkTeamMembership_def Let_def)

text \<open>
  Claim C3. In team-membership mode, once both lookups have returned without error: if
  either entry of \<^verbatim>\<open>teamIds\<close> is still \<^verbatim>\<open>null\<close> the level is \<open>UNAUTHORIZED\<close>, the state
  is the one the lookups left, and no team-membership request has been added to those
  sent before; otherwise, when both membership queries answer, the level is \<open>ADMIN\<close> if
  the caller belongs to the admin team, whatever the answer for the access team, else
  \<open>ACCESS\<close> (standard) if the caller belongs to the access team, else \<open>UNAUTHORIZED\<close>.
\<close>

theorem checkTeamMembership_levels:
  assumes "ensureTeamIds config e gh st = (None, st1)"
  shows "(teamIds st1 access = None \<or> teamIds st1 admin = None \<longrightarrow>
            checkTeamMembership config e gh st = (Inr UNAUTHORIZED, st1)
            \<and> filter is_BelongsToTeam (requests st1) = filter is_BelongsToTeam (requests st))
       \<and> (teamIds st1 access = Some accessId \<and> teamIds st1 admin = Some adminId
            \<and> belongsToTeam gh accessId = Inr isAccess
            \<and> belongsToTeam gh adminId = Inr isAdmin \<longrightarrow>
            fst (checkTeamMembership config e gh st) =
              Inr (if isAdmin then ADMIN else if isAccess then ACCESS else UNAUTHORIZED))"
proof (intro conjI impI)
  assume "teamIds st1 access = None \<or> teamIds st1 admin = None"
  then show "checkTeamMembership config e gh st = (Inr UNAUTHORIZED, st1)"
    by (rule checkTeamMembership_unresolved [OF assms])
next
  show "filter is_BelongsToTeam (requests st1) = filter is_BelongsToTeam (requests st)"
    using ensureTeamIds_membership_requests [of config e gh st] assms by simp
next
  assume a: "teamIds st1 access = Some accessId \<and> teamIds st1 admin = Some adminId
            \<and> belongsToTeam gh accessId = Inr isAccess
            \<and> belongsToTeam gh adminId = Inr isAdmin"
  show "fst (checkTeamMembership config e gh st) =
              Inr (if isAdmin then ADMIN else if isAccess then ACCESS else UNAUTHORIZED)"
    using checkTeamMembership_resolved [OF assms, of accessId adminId isAccess isAdmin] a
    by simp
qed

text \<open>
  The theorem on an outsider, for whom no team is found, and on members of both teams, of
  the admin team only, of the access team only and of neither.
\<close>

theorem checkTeamMembership_levels_witness:
  "checkTeamMembership team_config quiet_env outsider_api no_teamIds =
     (Inr UNAUTHORIZED,
      no_teamIds\<lparr>requests := [FindTeamWithName ''acme'' ''devs'',
                              FindTeamWithName ''acme'' ''owners'']\<rparr>)
   \<and> fst (checkTeamMembership team_config quiet_env (member_api [7, 9]) no_teamIds) = Inr ADMIN
   \<and> fst (checkTeamMembership team_config quiet_env (member_api [9]) no_teamIds) = Inr ADMIN
   \<and> fst (checkTeamMembership team_config quiet_env (member_api [7]) no_teamIds) = Inr ACCESS
   \<and> fst (checkTeamMembership team_config quiet_env (member_api []) no_teamIds)
       = Inr UNAUTHORIZED"
proof -
  have out: "teamIds (no_teamIds\<lparr>requests := [FindTeamWithName ''acme'' ''devs'',
                FindTeamWithName ''acme'' ''owners'']\<rparr>) access = None
           \<or> teamIds (no_teamIds\<lparr>requests := [FindTeamWithName ''acme'' ''devs'',
                FindTeamWithName ''acme'' ''owners'']\<rparr>) admin = None"
    by (simp add: no_teamIds_def)
  note r1 = checkTeamMembership_levels [OF outsider_ensureTeamIds, THEN conjunct1,
      rule_format, OF out, THEN conjunct1]
  have r: "fst (checkTeamMembership team_config quiet_env (member_api mine) no_teamIds) =
       Inr (if 9 \<in> set mine then ADMIN else if 7 \<in> set mine then ACCESS else UNAUTHORIZED)"
    for mine
  proof -
    have b: "teamIds \<lparr>teamIds = (\<lambda>tt. None)(access := Some 7, admin := Some 9),
                 requests = [FindTeamWithName ''acme'' ''devs'',
                             FindTeamWithName ''acme'' ''owners'']\<rparr> access = Some 7
           \<and> teamIds \<lparr>teamIds = (\<lambda>tt. None)(access := Some 7, admin := Some 9),
                 requests = [FindTeamWithName ''acme'' ''devs'',
                             FindTeamWithName ''acme'' ''owners'']\<rparr> admin = Some 9
           \<and> belongsToTeam (member_api mine) 7 = Inr (7 \<in> set mine)
           \<and> belongsToTeam (member_api mine) 9 = Inr (9 \<in> set mine)"
      by (simp add: member_api_def)
    show ?thesis
      by (rule checkTeamMembership_levels [OF member_ensureTeamIds, THEN conjunct2,
            rule_format, OF b])
  qed
  from r1 r [of "[7, 9]"] r [of "[9]"] r [of "[7]"] r [of "[]"] show ?thesis
    by simp
qed

subsection \<open>The account store\<close>

lemma foldr_max_ge: "x \<in> set xs \<Longrightarrow> x \<le> foldr max xs (0::nat)"
  by (induction xs) auto

text \<open>The identifier of a new document is not in the store, so saving it adds it.\<close>

lemma next_uid_fresh: "next_uid us \<notin> set (map uid us)"
proof
  assume "next_uid us \<in> set (map uid us)"
  then have "next_uid us \<le> foldr max (map uid us) 0" by (rule foldr_max_ge)
  then show False by (simp add: next_uid_def)
qed

lemma put_user_new: "uid u = next_uid us \<Longrightarrow> put_user u us = us @ [u]"
  using next_uid_fresh [of us] by (simp add: put_user_def)

lemma save_ok:
  "save_err e (saves db) = None \<Longrightarrow>
     save e u db = (None, db\<lparr>users := put_user u (users db), saves := Suc (saves db)\<rparr>)"
  by (simp add: save_def)

lemma save_failed:
  "save_err e (saves db) = Some err \<Longrightarrow>
     save e u db = (Some (TransportError err), db\<lparr>saves := Suc (saves db)\<rparr>)"
  by (simp add: save_def)

subsection \<open>Account resolution\<close>

text \<open>The three branches of \<open>findUser\<close> after the addresses are known and the query answered.\<close>

lemma findUser_none:
  assumes "emailsFromGitHub e gh = Inr (addresses, prim)" and "find_err e = None"
    and "filter (\<lambda>u. user_email u \<in> set addresses) (users db) = []"
  shows "findUser e gh prof db =
     (case save e ((new_User db)\<lparr>user_email := prim, created := Some (now e),
                      password := Some (randomBytes e), projects := []\<rparr>) db of
        (Some err, db') \<Rightarrow> (Inl err, db')
      | (None, db') \<Rightarrow>
          (Inr ((new_User db)\<lparr>user_email := prim, created := Some (now e),
                   password := Some (randomBytes e), projects := []\<rparr>), db'))"
  using assms by (simp add: findUser_def User_find_def Let_def)

lemma findUser_created:
  assumes "emailsFromGitHub e gh = Inr (addresses, prim)" and "find_err e = None"
    and "filter (\<lambda>u. user_email u \<in> set addresses) (users db) = []"
    and "save_err e (saves db) = None"
  shows "findUser e gh prof db =
     (Inr \<lparr>uid = next_uid (users db), user_email = prim, created = Some (now e),
           password = Some (randomBytes e), projects = [], account_level = None,
           accounts = []\<rparr>,
      db\<lparr>users := users db @
              [\<lparr>uid = next_uid (users db), user_email = prim, created = Some (now e),
                password = Some (randomBytes e), projects = [], account_level = None,
                accounts = []\<rparr>],
         saves := Suc (saves db)\<rparr>)"
proof -
  let ?usr = "(new_User db)\<lparr>user_email := prim, created := Some (now e),
                      password := Some (randomBytes e), projects := []\<rparr>"
  have usr: "?usr = \<lparr>uid = next_uid (users db), user_email = prim, created = Some (now e),
           password = Some (randomBytes e), projects = [], account_level = None,
           accounts = []\<rparr>"
    by (simp add: new_User_def)
  have "uid ?usr = next_uid (users db)" by (simp add: new_User_def)
  then have "put_user ?usr (users db) = users db @ [?usr]" by (rule put_user_new)
  then have "save e ?usr db = (None, db\<lparr>users := users db @ [?usr], saves := Suc (saves db)\<rparr>)"
    using save_ok [OF assms(4), of ?usr] by simp
  then have "findUser e gh prof db =
      (Inr ?usr, db\<lparr>users := users db @ [?usr], saves := Suc (saves db)\<rparr>)"
    using findUser_none [OF assms(1-3), of prof] by simp
  then show ?thesis unfolding usr .
qed

lemma findUser_one:
  assumes "emailsFromGitHub e gh = Inr (addresses, prim)" and "find_err e = None"
    and "filter (\<lambda>u. user_email u \<in> set addresses) (users db) = [u]"
  shows "findUser e gh prof db = (Inr u, db)"
  using assms by (simp add: findUser_def User_find_def)

lemma findUser_many:
  assumes "emailsFromGitHub e gh = Inr (addresses, prim)" and "find_err e = None"
    and "length (filter (\<lambda>u. user_email u \<in> set addresses) (users db)) > 1"
  shows "findUser e gh prof db =
     (Inl (Error (''More than one user found matching addresses: '' @
            array_toString (map user_email
              (filter (\<lambda>u. user_email u \<in> set addresses) (users db))))), db)"
  using assms by (simp add: findUser_def User_find_def)

text \<open>
  Claim C4. Let the provider's verified addresses be known and the store answer the query.
  When no stored account has one of the addresses and the store accepts the write,
  \<open>findUser\<close> adds exactly one document to the store and returns it: its email is the
  computed primary address, its creation time is the current time, its password is the
  string drawn from the random source, its list of linked accounts is empty (as is its
  list of projects) and its level is not set. When exactly one stored account has one of
  the addresses, that document is returned as it is and the store is left untouched: no
  document is added and no save is issued.
\<close>

theorem findUser_find_or_create:
  assumes "emailsFromGitHub e gh = Inr (addresses, prim)" and "find_err e = None"
  shows "(filter (\<lambda>u. user_email u \<in> set addresses) (users db) = []
            \<and> save_err e (saves db) = None \<longrightarrow>
          findUser e gh prof db =
            (Inr \<lparr>uid = next_uid (users db), user_email = prim, created = Some (now e),
                  password = Some (randomBytes e), projects = [], account_level = None,
                  accounts = []\<rparr>,
             db\<lparr>users := users db @
                    [\<lparr>uid = next_uid (users db), user_email = prim, created = Some (now e),
                      password = Some (randomBytes e), projects = [], account_level = None,
                      accounts = []\<rparr>],
                saves := Suc (saves db)\<rparr>))
       \<and> (filter (\<lambda>u. user_email u \<in> set addresses) (users db) = [u] \<longrightarrow>
          findUser e gh prof db = (Inr u, db))"
  using findUser_created [OF assms] findUser_one [OF assms] by blast

text \<open>
  The theorem on the concrete profile: with an empty store the account of
  \<open>mona@github.com\<close> is created; with a store that holds it, it is returned.
\<close>

theorem findUser_find_or_create_witness:
  "findUser quiet_env outsider_api octocat empty_store =
     (Inr \<lparr>uid = 1, user_email = ''mona@github.com'', created = Some 1700000000,
           password = Some ''s3cr3t'', projects = [], account_level = None, accounts = []\<rparr>,
      \<lparr>users = [\<lparr>uid = 1, user_email = ''mona@github.com'', created = Some 1700000000,
                 password = Some ''s3cr3t'', projects = [], account_level = None,
                 accounts = []\<rparr>],
       saves = 1\<rparr>)
   \<and> findUser quiet_env outsider_api octocat \<lparr>users = [mona], saves = 0\<rparr> =
       (Inr mona, \<lparr>users = [mona], saves = 0\<rparr>)"
proof -
  have a: "emailsFromGitHub quiet_env outsider_api =
      Inr ([''octo@cat.io'', ''mona@github.com''], ''mona@github.com'')"
    by (rule octocat_addresses) (simp add: outsider_api_def)
  have f: "find_err quiet_env = None" by (simp add: quiet_env_def)
  have none: "filter (\<lambda>u. user_email u \<in> set [''octo@cat.io'', ''mona@github.com''])
                (users empty_store) = []
              \<and> save_err quiet_env (saves empty_store) = None"
    by (simp add: empty_store_def quiet_env_def)
  have one: "filter (\<lambda>u. user_email u \<in> set [''octo@cat.io'', ''mona@github.com''])
                (users \<lparr>users = [mona], saves = 0\<rparr>) = [mona]"
    by (simp add: mona_def)
  from findUser_find_or_create [OF a f, THEN conjunct1, rule_format, OF none, of octocat]
  have r1: "findUser quiet_env outsider_api octocat empty_store =
     (Inr \<lparr>uid = 1, user_email = ''mona@github.com'', created = Some 1700000000,
           password = Some ''s3cr3t'', projects = [], account_level = None, accounts = []\<rparr>,
      \<lparr>users = [\<lparr>uid = 1, user_email = ''mona@github.com'', created = Some 1700000000,
                 password = Some ''s3cr3t'', projects = [], account_level = None,
                 accounts = []\<rparr>],
       saves = 1\<rparr>)"
    by (simp add: empty_store_def quiet_env_def next_uid_def)
  from findUser_find_or_create [OF a f, THEN conjunct2, rule_format, OF one, of octocat]
  have r2: "findUser quiet_env outsider_api octocat \<lparr>users = [mona], saves = 0\<rparr> =
       (Inr mona, \<lparr>users = [mona], saves = 0\<rparr>)" .
  from r1 r2 show ?thesis by (rule conjI)
qed

text \<open>
  Claim C6. When two or more stored accounts have one of the candidate addresses,
  \<open>findUser\<close> fails with an error whose message is "More than one user found matching
  addresses: " followed by the emails of those accounts, separated by commas; the store
  is left untouched: no account is created or changed and no save is issued.
\<close>

theorem findUser_ambiguous:
  assumes "emailsFromGitHub e gh = Inr (addresses, prim)" and "find_err e = None"
    and "length (filter (\<lambda>u. user_email u \<in> set addresses) (users db)) \<ge> 2"
  shows "findUser e gh prof db =
     (Inl (Error (''More than one user found matching addresses: '' @
            array_toString (map user_email
              (filter (\<lambda>u. user_email u \<in> set addresses) (users db))))), db)"
  using findUser_many [OF assms(1,2), of db prof] assms(3) by simp

text \<open>The theorem on a store that holds an account for each of the two addresses.\<close>

theorem findUser_ambiguous_witness:
  "findUser quiet_env outsider_api octocat \<lparr>users = [mona, octo], saves = 0\<rparr> =
     (Inl (Error ''More than one user found matching addresses: mona@github.com,octo@cat.io''),
      \<lparr>users = [mona, octo], saves = 0\<rparr>)"
proof -
  have a: "emailsFromGitHub quiet_env outsider_api =
      Inr ([''octo@cat.io'', ''mona@github.com''], ''mona@github.com'')"
    by (rule octocat_addresses) (simp add: outsider_api_def)
  have f: "find_err quiet_env = None" by (simp add: quiet_env_def)
  have m: "filter (\<lambda>u. user_email u \<in> set [''octo@cat.io'', ''mona@github.com''])
             (users \<lparr>users = [mona, octo], saves = 0\<rparr>) = [mona, octo]"
    by (simp add: mona_def octo_def)
  then have two: "length (filter (\<lambda>u. user_email u \<in> set [''octo@cat.io'', ''mona@github.com''])
             (users \<lparr>users = [mona, octo], saves = 0\<rparr>)) \<ge> 2"
    by simp
  have "array_toString (map user_email [mona, octo]) = ''mona@github.com,octo@cat.io''"
    by (simp add: mona_def octo_def)
  with findUser_ambiguous [OF a f two, of octocat] m show ?thesis
    by simp
qed

subsection \<open>Synchronization\<close>

lemma find_append_last:
  "find P (xs @ [a]) = (case find P xs of None \<Rightarrow> (if P a then Some a else None) | Some x \<Rightarrow> Some x)"
  by (induction xs) simp_all

text \<open>
  The document that \<open>syncUserModel\<close> saves and passes on for an authorized caller, and the
  fact that it always holds a linked account of this profile.
\<close>

lemma syncUserModel_authorized:
  "syncUserModel e gh (Some u) (Level n) db =
     ((fst (save e
         (case user_account u ''github'' (profile_id (profile gh)) of
            None \<Rightarrow> u\<lparr>account_level := Some n,
                       accounts := accounts u @ [github_account gh u]\<rparr>
          | Some a \<Rightarrow> u\<lparr>account_level := Some n\<rparr>) db),
       Some (case user_account u ''github'' (profile_id (profile gh)) of
            None \<Rightarrow> u\<lparr>account_level := Some n,
                       accounts := accounts u @ [github_account gh u]\<rparr>
          | Some a \<Rightarrow> u\<lparr>account_level := Some n\<rparr>)),
      snd (save e
         (case user_account u ''github'' (profile_id (profile gh)) of
            None \<Rightarrow> u\<lparr>account_level := Some n,
                       accounts := accounts u @ [github_account gh u]\<rparr>
          | Some a \<Rightarrow> u\<lparr>account_level := Some n\<rparr>) db))"
  by (simp add: syncUserModel_def user_account_def github_account_def Let_def split_beta
      split: option.splits)

lemma linked_after_sync:
  "user_account
     (case user_account u ''github'' (profile_id (profile gh)) of
        None \<Rightarrow> u\<lparr>account_level := Some n, accounts := accounts u @ [github_account gh u]\<rparr>
      | Some a \<Rightarrow> u\<lparr>account_level := Some n\<rparr>)
     ''github'' (profile_id (profile gh)) \<noteq> None"
  by (simp add: user_account_def github_account_def find_append_last split: option.splits)

text \<open>
  Claim C8. For an authorized caller (a level that is a number, \<open>ACCESS\<close> or \<open>ADMIN\<close>)
  \<open>syncUserModel\<close> passes on the account with the level set. If the account had no linked
  account for the provider \<open>github\<close> and the identifier of the profile, exactly one is
  appended: its provider is \<open>github\<close>, its identifier, URL and title are the profile's
  identifier, profile URL and username, its configuration holds the current access token,
  the profile's username, gravatar identifier and display name and the account's email,
  and its cache is empty. If the account had one, the list of linked accounts is as it
  was. A second run on the resulting account for the same profile identifier, whatever the
  token, the level and the store, leaves the list as the first run made it.
\<close>

theorem syncUserModel_links_once:
  assumes "syncUserModel e gh (Some u) (Level n) db = ((err, res), db1)"
  shows "\<exists>u1. res = Some u1
     \<and> account_level u1 = Some n
     \<and> accounts u1 =
         (case user_account u ''github'' (profile_id (profile gh)) of
            None \<Rightarrow> accounts u @
              [\<lparr>provider = ''github'',
                acc_id = profile_id (profile gh),
                display_url = profileUrl (profile gh),
                title = username (profile gh),
                acc_config =
                  \<lparr>cfg_accessToken = accessToken gh,
                   cfg_login = username (profile gh),
                   cfg_email = user_email u,
                   cfg_gravatarId = gravatar_id (profile gh),
                   cfg_name = displayName (profile gh)\<rparr>,
                cache = []\<rparr>]
          | Some a \<Rightarrow> accounts u)
     \<and> (\<forall>e2 gh2 m db2. profile_id (profile gh2) = profile_id (profile gh) \<longrightarrow>
           map_option accounts (snd (fst (syncUserModel e2 gh2 (Some u1) (Level m) db2)))
             = Some (accounts u1))"
proof -
  let ?u1 = "case user_account u ''github'' (profile_id (profile gh)) of
        None \<Rightarrow> u\<lparr>account_level := Some n, accounts := accounts u @ [github_account gh u]\<rparr>
      | Some a \<Rightarrow> u\<lparr>account_level := Some n\<rparr>"
  have res: "res = Some ?u1"
    using assms unfolding syncUserModel_authorized by simp
  have lvl: "account_level ?u1 = Some n"
    by (simp split: option.splits)
  have accs: "accounts ?u1 =
         (case user_account u ''github'' (profile_id (profile gh)) of
            None \<Rightarrow> accounts u @
              [\<lparr>provider = ''github'',
                acc_id = profile_id (profile gh),
                display_url = profileUrl (profile gh),
                title = username (profile gh),
                acc_config =
                  \<lparr>cfg_accessToken = accessToken gh,
                   cfg_login = username (profile gh),
                   cfg_email = user_email u,
                   cfg_gravatarId = gravatar_id (profile gh),
                   cfg_name = displayName (profile gh)\<rparr>,
                cache = []\<rparr>]
          | Some a \<Rightarrow> accounts u)"
    by (simp add: github_account_def split: option.splits)
  have again: "map_option accounts (snd (fst (syncUserModel e2 gh2 (Some ?u1) (Level m) db2)))
             = Some (accounts ?u1)"
    if same: "profile_id (profile gh2) = profile_id (profile gh)" for e2 gh2 m db2
  proof -
    obtain a where "user_account ?u1 ''github'' (profile_id (profile gh2)) = Some a"
      using linked_after_sync [of u gh n] same by auto
    then show ?thesis
      unfolding syncUserModel_authorized by simp
  qed
  from res lvl accs again show ?thesis by blast
qed

text \<open>
  The theorem on the account \<open>mona\<close>, which has no linked account: the first run, with the
  token \<open>t0k\<close>, appends the account of the profile; a second run with the token \<open>fresh\<close>
  appends nothing and leaves the first token in place.
\<close>

theorem syncUserModel_links_once_witness:
  "syncUserModel quiet_env ((member_api [9])\<lparr>accessToken := ''t0k''\<rparr>) (Some mona) ADMIN
       \<lparr>users = [mona], saves = 0\<rparr> =
     ((None, Some (mona\<lparr>account_level := Some 1, accounts :=
         [\<lparr>provider = ''github'', acc_id = ''583231'',
           display_url = ''https://github.com/octocat'', title = ''octocat'',
           acc_config = \<lparr>cfg_accessToken = ''t0k'', cfg_login = ''octocat'',
                         cfg_email = ''mona@github.com'', cfg_gravatarId = ''g1'',
                         cfg_name = ''The Octocat''\<rparr>,
           cache = []\<rparr>]\<rparr>)),
      \<lparr>users = [mona\<lparr>account_level := Some 1, accounts :=
         [\<lparr>provider = ''github'', acc_id = ''583231'',
           display_url = ''https://github.com/octocat'', title = ''octocat'',
           acc_config = \<lparr>cfg_accessToken = ''t0k'', cfg_login = ''octocat'',
                         cfg_email = ''mona@github.com'', cfg_gravatarId = ''g1'',
                         cfg_name = ''The Octocat''\<rparr>,
           cache = []\<rparr>]\<rparr>],
       saves = 1\<rparr>)
   \<and> map_option accounts (snd (fst (syncUserModel quiet_env
         ((member_api [9])\<lparr>accessToken := ''fresh''\<rparr>)
         (Some (mona\<lparr>account_level := Some 1, accounts :=
           [\<lparr>provider = ''github'', acc_id = ''583231'',
             display_url = ''https://github.com/octocat'', title = ''octocat'',
             acc_config = \<lparr>cfg_accessToken = ''t0k'', cfg_login = ''octocat'',
                           cfg_email = ''mona@github.com'', cfg_gravatarId = ''g1'',
                           cfg_name = ''The Octocat''\<rparr>,
             cache = []\<rparr>]\<rparr>))
         ACCESS \<lparr>users = [], saves = 1\<rparr>)))
       = Some [\<lparr>provider = ''github'', acc_id = ''583231'',
           display_url = ''https://github.com/octocat'', title = ''octocat'',
           acc_config = \<lparr>cfg_accessToken = ''t0k'', cfg_login = ''octocat'',
                         cfg_email = ''mona@github.com'', cfg_gravatarId = ''g1'',
                         cfg_name = ''The Octocat''\<rparr>,
           cache = []\<rparr>]"
proof -
  let ?gh = "(member_api [9])\<lparr>accessToken := ''t0k''\<rparr>"
  let ?linked = "\<lparr>provider = ''github'', acc_id = ''583231'',
           display_url = ''https://github.com/octocat'', title = ''octocat'',
           acc_config = \<lparr>cfg_accessToken = ''t0k'', cfg_login = ''octocat'',
                         cfg_email = ''mona@github.com'', cfg_gravatarId = ''g1'',
                         cfg_name = ''The Octocat''\<rparr>,
           cache = []\<rparr>"
  have first: "syncUserModel quiet_env ?gh (Some mona) ADMIN \<lparr>users = [mona], saves = 0\<rparr> =
     ((None, Some (mona\<lparr>account_level := Some 1, accounts := [?linked]\<rparr>)),
      \<lparr>users = [mona\<lparr>account_level := Some 1, accounts := [?linked]\<rparr>], saves = 1\<rparr>)"
    by (simp add: syncUserModel_authorized user_account_def github_account_def save_def
        put_user_def quiet_env_def mona_def member_api_def octocat_def)
  from syncUserModel_links_once [OF first] have
    "\<forall>e2 gh2 m db2. profile_id (profile gh2) = profile_id (profile ?gh) \<longrightarrow>
       map_option accounts (snd (fst (syncUserModel e2 gh2
         (Some (mona\<lparr>account_level := Some 1, accounts := [?linked]\<rparr>)) (Level m) db2)))
       = Some (accounts (mona\<lparr>account_level := Some 1, accounts := [?linked]\<rparr>))"
    by auto
  then have "map_option accounts (snd (fst (syncUserModel quiet_env
         ((member_api [9])\<lparr>accessToken := ''fresh''\<rparr>)
         (Some (mona\<lparr>account_level := Some 1, accounts := [?linked]\<rparr>))
         ACCESS \<lparr>users = [], saves = 1\<rparr>)))
       = Some [?linked]"
    by simp
  with first show ?thesis by (rule conjI)
qed

subsection \<open>The strategy callback\<close>

text \<open>
  When \<open>findUser\<close> succeeds, either it returned a stored document and left the store as it
  was, or it added the document it returned, which has no level and no linked account.
\<close>

lemma findUser_success:
  assumes "findUser e gh prof db = (Inr u, db1)"
  shows "(db1 = db \<and> u \<in> set (users db))
       \<or> (users db1 = users db @ [u] \<and> saves db1 = Suc (saves db)
           \<and> account_level u = None \<and> accounts u = [])"
proof -
  obtain addresses prim where a: "emailsFromGitHub e gh = Inr (addresses, prim)"
    using assms by (cases "emailsFromGitHub e gh") (auto simp: findUser_def)
  have f: "find_err e = None"
    using assms a by (cases "find_err e") (auto simp: findUser_def User_find_def)
  let ?rs = "filter (\<lambda>u. user_email u \<in> set addresses) (users db)"
  consider "?rs = []" | x where "?rs = [x]" | "length ?rs > 1"
  proof (cases ?rs)
    case Nil
    then show ?thesis using that by simp
  next
    case (Cons x xs)
    then show ?thesis using that by (cases xs) auto
  qed
  then show ?thesis
  proof cases
    case 1
    show ?thesis
    proof (cases "save_err e (saves db)")
      case None
      from findUser_created [OF a f 1 None, of prof] assms show ?thesis by auto
    next
      case (Some err)
      from findUser_none [OF a f 1, of prof] save_failed [OF Some] assms show ?thesis
        by simp
    qed
  next
    case 2
    then have "x \<in> set ?rs" by simp
    then have "x \<in> set (users db)" by simp
    with findUser_one [OF a f 2, of prof] assms show ?thesis by simp
  next
    case 3
    from findUser_many [OF a f 3, of prof] assms show ?thesis by simp
  qed
qed

lemma strategyCallback_unauthorized:
  assumes "findUser e (new_GitHub api prof token) prof db = (Inr u, db1)"
    and "checkAuthorization config e (new_GitHub api prof token) st = (Inr UNAUTHORIZED, st1)"
  shows "strategyCallback config e api token refreshToken prof (db, st) =
     ((Some (Error ''User not authorized''), None), db1, st1)"
  using assms by (simp add: strategyCallback_def Let_def)

lemma strategyCallback_findUser_error:
  assumes "findUser e (new_GitHub api prof token) prof db = (Inl err, db1)"
    and "checkAuthorization config e (new_GitHub api prof token) st = (Inr auth, st1)"
  shows "strategyCallback config e api token refreshToken prof (db, st) =
     ((Some err, None), db1, st1)"
  using assms by (simp add: strategyCallback_def Let_def)

text \<open>The outsider's level in organization-membership mode.\<close>

lemma outsider_checkAuthorization:
  "checkAuthorization org_config quiet_env (new_GitHub outsider_api octocat token) no_teamIds =
     (Inr UNAUTHORIZED, no_teamIds)"
  "checkAuthorization org_config quiet_env
     (new_GitHub (outsider_api\<lparr>emails := ems\<rparr>) octocat token) no_teamIds =
     (Inr UNAUTHORIZED, no_teamIds)"
  by (simp_all add: checkAuthorization_def checkOrgMembership_def org_config_def truthy_def
      new_GitHub_def outsider_api_def)

text \<open>
  Claim C1, as the code has it. \<open>syncUserModel\<close> given the level \<open>UNAUTHORIZED\<close>, or no
  account, writes nothing: it issues no save, leaves the store as it is and calls back with
  neither an error nor an account. For every authentication attempt in which the account
  is resolved and the derived level is \<open>UNAUTHORIZED\<close>, the attempt fails with the error
  "User not authorized" that the module builds itself, which is not an error passed on
  from a collaborator, whatever the collaborators answered; no account is passed on, and
  the store is the one that account resolution left: either the resolved account was
  stored before and the store is unchanged, or it is the account just created, with no
  level and no linked account.
\<close>

theorem unauthorized_no_write:
  assumes "findUser e (new_GitHub api prof token) prof db = (Inr u, db1)"
    and "checkAuthorization config e (new_GitHub api prof token) st = (Inr UNAUTHORIZED, st1)"
  shows "strategyCallback config e api token refreshToken prof (db, st) =
           ((Some (Error ''User not authorized''), None), db1, st1)
       \<and> ((db1 = db \<and> u \<in> set (users db))
            \<or> (users db1 = users db @ [u] \<and> saves db1 = Suc (saves db)
                \<and> account_level u = None \<and> accounts u = []))
       \<and> fst (fst (strategyCallback config e api token refreshToken prof (db, st)))
            \<noteq> Some (TransportError err)
       \<and> syncUserModel e' gh usr UNAUTHORIZED db' = ((None, None), db')
       \<and> syncUserModel e' gh None auth db' = ((None, None), db')"
proof -
  have "syncUserModel e' gh usr UNAUTHORIZED db' = ((None, None), db')"
    by (simp add: syncUserModel_def split: option.splits)
  moreover have "syncUserModel e' gh None auth db' = ((None, None), db')"
    by (simp add: syncUserModel_def)
  ultimately show ?thesis
    using strategyCallback_unauthorized [OF assms, of refreshToken]
      findUser_success [OF assms(1)]
    by simp
qed

text \<open>
  The theorem on an outsider whose address \<open>mona@github.com\<close> has an account in the store:
  the attempt is refused and the account is stored as before, at level 0 and without a
  linked account.
\<close>

theorem unauthorized_no_write_witness:
  "findUser quiet_env (new_GitHub outsider_api octocat ''t0k'') octocat
       \<lparr>users = [mona], saves = 0\<rparr> = (Inr mona, \<lparr>users = [mona], saves = 0\<rparr>)
   \<and> strategyCallback org_config quiet_env outsider_api ''t0k'' ''r3f'' octocat
       (\<lparr>users = [mona], saves = 0\<rparr>, no_teamIds) =
       ((Some (Error ''User not authorized''), None), \<lparr>users = [mona], saves = 0\<rparr>, no_teamIds)"
proof -
  have a: "emailsFromGitHub quiet_env (new_GitHub outsider_api octocat ''t0k'') =
      Inr ([''octo@cat.io'', ''mona@github.com''], ''mona@github.com'')"
    by (rule octocat_addresses) (simp add: new_GitHub_def outsider_api_def)
  have f: "find_err quiet_env = None" by (simp add: quiet_env_def)
  have one: "filter (\<lambda>u. user_email u \<in> set [''octo@cat.io'', ''mona@github.com''])
                (users \<lparr>users = [mona], saves = 0\<rparr>) = [mona]"
    by (simp add: mona_def)
  note found = findUser_one [OF a f one, of octocat]
  from found unauthorized_no_write [OF found outsider_checkAuthorization(1), of "''r3f''"]
  show ?thesis by simp
qed

text \<open>
  Claim C1 as written fails where account resolution fails: a caller without a verified
  address who is not a member of the organization has the derived level \<open>UNAUTHORIZED\<close>,
  and the attempt fails with the error of account resolution, not with "User not
  authorized".
\<close>

theorem unauthorized_other_error_counterexample:
  "fst (checkAuthorization org_config quiet_env
         (new_GitHub (outsider_api\<lparr>emails :=
             Inr [\<lparr>email = ''mona@github.com'', verified = False, primary = True\<rparr>]\<rparr>)
           octocat ''t0k'') no_teamIds) = Inr UNAUTHORIZED
   \<and> strategyCallback org_config quiet_env
       (outsider_api\<lparr>emails :=
             Inr [\<lparr>email = ''mona@github.com'', verified = False, primary = True\<rparr>]\<rparr>)
       ''t0k'' ''r3f'' octocat (empty_store, no_teamIds) =
       ((Some (Error ''You have no verified email addresses on GitHub.''), None),
        empty_store, no_teamIds)"
proof -
  let ?api = "outsider_api\<lparr>emails :=
             Inr [\<lparr>email = ''mona@github.com'', verified = False, primary = True\<rparr>]\<rparr>"
  have "emailsFromGitHub quiet_env (new_GitHub ?api octocat ''t0k'') =
      Inl (Error ''You have no verified email addresses on GitHub.'')"
    by (simp add: emailsFromGitHub_def new_GitHub_def)
  then have u: "findUser quiet_env (new_GitHub ?api octocat ''t0k'') octocat empty_store =
      (Inl (Error ''You have no verified email addresses on GitHub.''), empty_store)"
    by (simp add: findUser_def)
  note c = outsider_checkAuthorization(2)
    [of "Inr [\<lparr>email = ''mona@github.com'', verified = False, primary = True\<rparr>]" "''t0k''"]
  from strategyCallback_findUser_error [OF u c, of "''r3f''"] c show ?thesis
    by simp
qed

text \<open>
  Claim C9. When the profile has a verified address, no stored account has one of its
  addresses, the store answers the query and accepts the write, and the derived level is
  \<open>UNAUTHORIZED\<close>, the attempt fails with the error "User not authorized" and passes on no
  account, yet the store it leaves holds the new account, with the primary address as its
  email: the creation is not undone.
\<close>

theorem unauthorized_account_created:
  assumes "emailsFromGitHub e (new_GitHub api prof token) = Inr (addresses, prim)"
    and "find_err e = None"
    and "filter (\<lambda>u. user_email u \<in> set addresses) (users db) = []"
    and "save_err e (saves db) = None"
    and "fst (checkAuthorization config e (new_GitHub api prof token) st) = Inr UNAUTHORIZED"
  shows "strategyCallback config e api token refreshToken prof (db, st) =
     ((Some (Error ''User not authorized''), None),
      db\<lparr>users := users db @
              [\<lparr>uid = next_uid (users db), user_email = prim, created = Some (now e),
                password = Some (randomBytes e), projects = [], account_level = None,
                accounts = []\<rparr>],
         saves := Suc (saves db)\<rparr>,
      snd (checkAuthorization config e (new_GitHub api prof token) st))"
proof -
  have c: "checkAuthorization config e (new_GitHub api prof token) st =
      (Inr UNAUTHORIZED, snd (checkAuthorization config e (new_GitHub api prof token) st))"
    using assms(5) by (simp add: prod_eq_iff)
  from strategyCallback_unauthorized [OF findUser_created [OF assms(1-4), of prof] c]
  show ?thesis .
qed

text \<open>
  The theorem on an outsider with the verified address \<open>mona@github.com\<close> and an empty
  store: the attempt is refused and the store holds the new account.
\<close>

theorem unauthorized_account_created_witness:
  "strategyCallback org_config quiet_env outsider_api ''t0k'' ''r3f'' octocat
       (empty_store, no_teamIds) =
     ((Some (Error ''User not authorized''), None),
      \<lparr>users = [\<lparr>uid = 1, user_email = ''mona@github.com'', created = Some 1700000000,
                 password = Some ''s3cr3t'', projects = [], account_level = None,
                 accounts = []\<rparr>],
       saves = 1\<rparr>,
      no_teamIds)"
proof -
  have a: "emailsFromGitHub quiet_env (new_GitHub outsider_api octocat ''t0k'') =
      Inr ([''octo@cat.io'', ''mona@github.com''], ''mona@github.com'')"
    by (rule octocat_addresses) (simp add: new_GitHub_def outsider_api_def)
  have f: "find_err quiet_env = None" by (simp add: quiet_env_def)
  have none: "filter (\<lambda>u. user_email u \<in> set [''octo@cat.io'', ''mona@github.com''])
                (users empty_store) = []"
    by (simp add: empty_store_def)
  have s: "save_err quiet_env (saves empty_store) = None" by (simp add: quiet_env_def)
  have c: "fst (checkAuthorization org_config quiet_env
                 (new_GitHub outsider_api octocat ''t0k'') no_teamIds) = Inr UNAUTHORIZED"
    by (simp add: outsider_checkAuthorization(1))
  have st: "snd (checkAuthorization org_config quiet_env
                 (new_GitHub outsider_api octocat ''t0k'') no_teamIds) = no_teamIds"
    by (simp add: outsider_checkAuthorization(1))
  from unauthorized_account_created [OF a f none s c, of "''r3f''"] show ?thesis
    unfolding st by (simp add: empty_store_def quiet_env_def next_uid_def)
qed

end
